theory Spec2Isabelle
  imports Main "HOL-Library.Word"
begin

section \<open>The NATS JetStream connector: source iterator and destination writer\<close>

text \<open>
  A shallow embedding of \<^verbatim>\<open>source/jetstream/iterator.go\<close> and
  \<^verbatim>\<open>destination/jetstream/writer.go\<close>.

  The Go code talks to three things it does not own: the NATS client library
  (\<^verbatim>\<open>nats.Msg\<close>, the JetStream context), the wall clock and the position codec of
  \<^verbatim>\<open>position.go\<close> (\<^verbatim>\<open>marshalSDKPosition\<close>, \<^verbatim>\<open>parsePosition\<close>).
  Each of them is an explicit parameter of the functions below: the answer of the
  broker to a call, the reading of the clock, the codec. Every theorem holds for all of
  them. Calls made to the broker are returned as a trace beside the result, so that
  "no publish" and "no acknowledge" are statements about that trace.
\<close>

subsection \<open>Values of the libraries\<close>

text \<open>\<^verbatim>\<open>[]byte\<close>; \<^verbatim>\<open>sdk.Position\<close> and \<^verbatim>\<open>sdk.RawData\<close> are byte slices.
  \<^verbatim>\<open>bytes.Compare(a, b) != 0\<close> is inequality of the two sequences.\<close>

type_synonym bytes = string

text \<open>\<^verbatim>\<open>time.Time\<close> as the nanoseconds since the zero instant of Go's clock, so that
  \<^verbatim>\<open>IsZero\<close> is a comparison with 0; \<^verbatim>\<open>time.Duration\<close> as nanoseconds.\<close>

type_synonym Time = int
type_synonym Duration = int

definition IsZero :: "Time \<Rightarrow> bool" where
  "IsZero t = (t = 0)"

definition Second :: Duration where
  "Second = 1000000000"

text \<open>The value of \<^verbatim>\<open>ctx.Err()\<close> once \<^verbatim>\<open>ctx.Done()\<close> is closed.\<close>

datatype ctxErr = Canceled | DeadlineExceeded

text \<open>
  Errors. \<^verbatim>\<open>fmt.Errorf("<text>: %w", err)\<close> is \<open>Errorf text err\<close>. The two errors that
  \<^verbatim>\<open>canAck\<close> builds from a format string carry the values it formats:
  \<open>NoUnacknowledged p\<close> is "requested ack for p but no unacknowledged messages found",
  \<open>OutOfOrderAck p q\<close> is "ack is out-of-order, requested ack for p, but first unack.
  Message is q". \<open>LibError\<close> is an error that a library call returned, \<open>Panic\<close> a run-time
  panic of Go.
\<close>

datatype error =
    ErrUnimplemented
  | ContextErr ctxErr
  | LibError string
  | Errorf string error
  | NoUnacknowledged bytes
  | OutOfOrderAck bytes bytes
  | Panic string

datatype DeliverPolicy =
    DeliverAllPolicy
  | DeliverLastPolicy
  | DeliverNewPolicy
  | DeliverByStartSequencePolicy
  | DeliverByStartTimePolicy
  | DeliverLastPerSubjectPolicy

datatype AckPolicy = AckNonePolicy | AckAllPolicy | AckExplicitPolicy

datatype ReplayPolicy = ReplayInstantPolicy | ReplayOriginalPolicy

text \<open>\<^verbatim>\<open>nats.SequencePair\<close> and the fields of \<^verbatim>\<open>nats.MsgMetadata\<close> that the
  connector reads.\<close>

record SequencePair =
  Consumer :: "64 word"
  Stream :: "64 word"

record MsgMetadata =
  Sequence :: SequencePair
  Timestamp :: Time

text \<open>
  A \<^verbatim>\<open>nats.Msg\<close>: its payload and what \<^verbatim>\<open>msg.Metadata()\<close> returns (the library
  parses the reply subject of the message again at every call, building a new value each
  time, so the result is a function of the message).
\<close>

record Msg =
  Data :: bytes
  Metadata :: "error + MsgMetadata"

record ConsumerConfig =
  Durable :: string
  ReplayPolicy :: ReplayPolicy
  DeliverSubject :: string
  DeliverPolicy :: DeliverPolicy
  OptStartSeq :: "64 word"
  AckPolicy :: AckPolicy
  FlowControl :: bool
  Heartbeat :: Duration

record ConsumerInfo =
  Stream :: string
  Name :: string
  Config :: ConsumerConfig

record Subscription =
  Subject :: string

text \<open>
  The JetStream context as the answers of the broker: \<open>AddConsumer stream cfg\<close>, and
  \<open>ChanSubscribe subject durable\<close> for
  \<^verbatim>\<open>ChanSubscribe(subject, messages, nats.Durable(durable))\<close>. A connection is what
  \<^verbatim>\<open>Conn.JetStream()\<close> returns.
\<close>

record JetStreamContext =
  AddConsumer :: "string \<Rightarrow> ConsumerConfig \<Rightarrow> error + ConsumerInfo"
  ChanSubscribe :: "string \<Rightarrow> string \<Rightarrow> error + Subscription"

record Conn =
  JetStream :: "error + JetStreamContext"

subsection \<open>The source: positions, parameters, iterator state\<close>

text \<open>The struct \<^verbatim>\<open>position\<close> that the iterator fills in.\<close>

record position =
  Durable :: string
  Stream :: string
  Subject :: string
  Timestamp :: Time
  OptSeq :: "64 word"

text \<open>The codec of positions, a parameter: \<open>marshalSDKPosition\<close> and \<open>parsePosition\<close>.\<close>

type_synonym marshaller = "position \<Rightarrow> error + bytes"
type_synonym parser = "bytes \<Rightarrow> error + position"

record IteratorParams =
  Conn :: Conn
  BufferSize :: int
  Durable :: string
  Stream :: string
  Subject :: string
  SDKPosition :: bytes
  DeliverPolicy :: DeliverPolicy
  AckPolicy :: AckPolicy

text \<open>The \<^verbatim>\<open>sdk.Record\<close> that the iterator builds.\<close>

record Record =
  Position :: bytes
  CreatedAt :: Time
  Payload :: bytes

text \<open>
  The iterator. \<open>messages\<close> is the buffer of the channel while it is open, oldest message
  first; \<open>unackMessages\<close> is the slice. The fields \<^verbatim>\<open>conn\<close> and \<^verbatim>\<open>jetstream\<close> are read
  by \<^verbatim>\<open>Stop\<close> only and are left out, as is \<^verbatim>\<open>Stop\<close>.
\<close>

record Iterator =
  messages :: "Msg list"
  unackMessages :: "Msg list"
  consumerInfo :: ConsumerInfo
  subscription :: Subscription

definition heartbeatTimeout :: Duration where
  "heartbeatTimeout = 2 * Second"

text \<open>\<^verbatim>\<open>getConsumerConfig\<close>; the two \<^verbatim>\<open>var\<close>s and the assignment under the \<^verbatim>\<open>if\<close>
  are the pair \<open>(deliverPolicy, startSeq)\<close>.\<close>

definition getConsumerConfig :: "parser \<Rightarrow> IteratorParams \<Rightarrow> error + ConsumerConfig" where
  "getConsumerConfig parsePosition params =
     (case parsePosition (SDKPosition params) of
        Inl err \<Rightarrow> Inl (Errorf ''parse position'' err)
      | Inr pos \<Rightarrow>
          (let (deliverPolicy, startSeq) =
                 (if OptSeq pos \<noteq> 0
                  then (DeliverByStartSequencePolicy, OptSeq pos)
                  else (IteratorParams.DeliverPolicy params, 0))
           in Inr \<lparr>ConsumerConfig.Durable = IteratorParams.Durable params,
                   ReplayPolicy = ReplayInstantPolicy,
                   DeliverSubject =
                     IteratorParams.Durable params @ ''.'' @ IteratorParams.Stream params,
                   DeliverPolicy = deliverPolicy,
                   OptStartSeq = startSeq,
                   AckPolicy = IteratorParams.AckPolicy params,
                   FlowControl = True,
                   Heartbeat = heartbeatTimeout\<rparr>))"

text \<open>\<^verbatim>\<open>NewIterator\<close>. \<^verbatim>\<open>make(chan *nats.Msg, n)\<close> panics for a negative size.\<close>

definition NewIterator :: "parser \<Rightarrow> IteratorParams \<Rightarrow> error + Iterator" where
  "NewIterator parsePosition params =
     (case JetStream (Conn params) of
        Inl err \<Rightarrow> Inl (Errorf ''get jetstream context'' err)
      | Inr jetstream \<Rightarrow>
     (case getConsumerConfig parsePosition params of
        Inl err \<Rightarrow> Inl (Errorf ''get consumer config'' err)
      | Inr consumerConfig \<Rightarrow>
     (case AddConsumer jetstream (IteratorParams.Stream params) consumerConfig of
        Inl err \<Rightarrow> Inl (Errorf ''add jetstream consumer'' err)
      | Inr info \<Rightarrow>
     if BufferSize params < 0 then Inl (Panic ''makechan: size out of range'')
     else
     (case ChanSubscribe jetstream (IteratorParams.Subject params)
             (ConsumerConfig.Durable (Config info)) of
        Inl err \<Rightarrow> Inl (Errorf ''chan subscribe'' err)
      | Inr sub \<Rightarrow>
          Inr \<lparr>messages = [], unackMessages = [],
               consumerInfo = info, subscription = sub\<rparr>))))"

text \<open>\<^verbatim>\<open>HasNext\<close>.\<close>

definition HasNext :: "Iterator \<Rightarrow> bool" where
  "HasNext i = (length (messages i) > 0)"

text \<open>
  The struct literal of \<^verbatim>\<open>getMessagePosition\<close> (its local \<^verbatim>\<open>position\<close>), named so
  that theorems can speak of it. The addition is that of \<^verbatim>\<open>uint64\<close>: it wraps.
\<close>

definition messagePosition :: "Iterator \<Rightarrow> MsgMetadata \<Rightarrow> position" where
  "messagePosition i metadata =
     \<lparr>position.Durable = Name (consumerInfo i),
      Stream = ConsumerInfo.Stream (consumerInfo i),
      Subject = Subscription.Subject (subscription i),
      Timestamp = MsgMetadata.Timestamp metadata,
      OptSeq = SequencePair.Stream (Sequence metadata) + 1\<rparr>"

definition getMessagePosition :: "marshaller \<Rightarrow> Iterator \<Rightarrow> Msg \<Rightarrow> error + bytes" where
  "getMessagePosition marshalSDKPosition i msg =
     (case Metadata msg of
        Inl err \<Rightarrow> Inl (Errorf ''get message metadata'' err)
      | Inr metadata \<Rightarrow>
          (case marshalSDKPosition (messagePosition i metadata) of
             Inl err \<Rightarrow> Inl (Errorf ''marshal sdk position'' err)
           | Inr sdkPosition \<Rightarrow> Inr sdkPosition))"

text \<open>\<^verbatim>\<open>messageToRecord\<close>; \<open>now\<close> is what \<^verbatim>\<open>time.Now()\<close> returns if it is called.\<close>

definition messageToRecord :: "marshaller \<Rightarrow> Time \<Rightarrow> Iterator \<Rightarrow> Msg \<Rightarrow> error + Record" where
  "messageToRecord marshalSDKPosition now i msg =
     (case getMessagePosition marshalSDKPosition i msg of
        Inl err \<Rightarrow> Inl (Errorf ''get position'' err)
      | Inr pos \<Rightarrow>
          (case Metadata msg of
             Inl err \<Rightarrow> Inl (Errorf ''get message metadata'' err)
           | Inr metadata \<Rightarrow>
               Inr \<lparr>Position = pos,
                    CreatedAt = (if IsZero (MsgMetadata.Timestamp metadata) then now
                                 else MsgMetadata.Timestamp metadata),
                    Payload = Data msg\<rparr>))"

text \<open>
  \<^verbatim>\<open>Next\<close>. The \<^verbatim>\<open>select\<close> has two cases: a receive from \<open>messages\<close>, ready when the
  buffer is not empty, and \<^verbatim>\<open>ctx.Done()\<close>, ready when the context is done (\<open>ctx = Some e\<close>,
  with \<open>e\<close> the value of \<^verbatim>\<open>ctx.Err()\<close>). When both are ready Go picks one of them at
  random: \<open>pick\<close> is that choice. When none is ready the call blocks: \<open>None\<close>.
\<close>

datatype selectCase = CaseMessage | CaseDone

definition Next ::
  "marshaller \<Rightarrow> Time \<Rightarrow> selectCase \<Rightarrow> ctxErr option \<Rightarrow> Iterator
     \<Rightarrow> ((error + Record) \<times> Iterator) option" where
  "Next marshalSDKPosition now pick ctx i =
     (let receive = (\<lambda>msg rest.
            case messageToRecord marshalSDKPosition now i msg of
              Inl err \<Rightarrow>
                (Inl (Errorf ''convert message to record'' err), i\<lparr>messages := rest\<rparr>)
            | Inr sdkRecord \<Rightarrow>
                (Inr sdkRecord,
                 if ConsumerConfig.AckPolicy (Config (consumerInfo i)) \<noteq> AckNonePolicy
                 then i\<lparr>messages := rest, unackMessages := unackMessages i @ [msg]\<rparr>
                 else i\<lparr>messages := rest\<rparr>))
      in case (messages i, ctx) of
           ([], None) \<Rightarrow> None
         | ([], Some e) \<Rightarrow> Some (Inl (ContextErr e), i)
         | (msg # rest, None) \<Rightarrow> Some (receive msg rest)
         | (msg # rest, Some e) \<Rightarrow>
             (if pick = CaseDone then Some (Inl (ContextErr e), i)
              else Some (receive msg rest)))"

text \<open>\<^verbatim>\<open>canAck\<close>; \<open>None\<close> is the \<^verbatim>\<open>nil\<close> error.\<close>

definition canAck :: "marshaller \<Rightarrow> Iterator \<Rightarrow> bytes \<Rightarrow> error option" where
  "canAck marshalSDKPosition i sdkPosition =
     (case unackMessages i of
        [] \<Rightarrow> Some (NoUnacknowledged sdkPosition)
      | first # _ \<Rightarrow>
          (case getMessagePosition marshalSDKPosition i first of
             Inl err \<Rightarrow> Some (Errorf ''get position'' err)
           | Inr pos \<Rightarrow>
               if pos \<noteq> sdkPosition then Some (OutOfOrderAck sdkPosition pos)
               else None))"

text \<open>
  \<^verbatim>\<open>Ack\<close>. \<open>msgAck m\<close> is the answer of the broker to \<^verbatim>\<open>m.Ack()\<close>. The result is the
  error, the iterator after the call, and the messages on which \<^verbatim>\<open>Ack()\<close> was called.
  \<^verbatim>\<open>unackMessages[0]\<close> on an empty slice would panic.
\<close>

definition Ack ::
  "marshaller \<Rightarrow> (Msg \<Rightarrow> error option) \<Rightarrow> Iterator \<Rightarrow> bytes
     \<Rightarrow> error option \<times> Iterator \<times> Msg list" where
  "Ack marshalSDKPosition msgAck i sdkPosition =
     (if ConsumerConfig.AckPolicy (Config (consumerInfo i)) = AckNonePolicy
      then (None, i, [])
      else
        (case canAck marshalSDKPosition i sdkPosition of
           Some err \<Rightarrow> (Some (Errorf ''message cannot be acknowledged'' err), i, [])
         | None \<Rightarrow>
             (case unackMessages i of
                [] \<Rightarrow> (Some (Panic ''index out of range''), i, [])
              | first # rest \<Rightarrow>
                  (case msgAck first of
                     Some err \<Rightarrow> (Some (Errorf ''ack message'' err), i, [first])
                   | None \<Rightarrow> (None, i\<lparr>unackMessages := rest\<rparr>, [first])))))"

text \<open>
  What happens to an iterator over time: the broker client delivers a message into the
  channel, or the pipeline calls \<^verbatim>\<open>Next\<close> or \<^verbatim>\<open>Ack\<close>. A \<^verbatim>\<open>Next\<close> that blocks
  leaves the iterator as it is.
\<close>

datatype event =
    Deliver Msg
  | CallNext Time selectCase "ctxErr option"
  | CallAck "Msg \<Rightarrow> error option" bytes

fun step :: "marshaller \<Rightarrow> Iterator \<Rightarrow> event \<Rightarrow> Iterator" where
  "step mar i (Deliver m) = i\<lparr>messages := messages i @ [m]\<rparr>"
| "step mar i (CallNext now pick ctx) =
     (case Next mar now pick ctx i of None \<Rightarrow> i | Some (_, i') \<Rightarrow> i')"
| "step mar i (CallAck msgAck sdkPosition) = fst (snd (Ack mar msgAck i sdkPosition))"

definition run :: "marshaller \<Rightarrow> Iterator \<Rightarrow> event list \<Rightarrow> Iterator" where
  "run mar i evs = foldl (step mar) i evs"

subsection \<open>The destination: writer\<close>

text \<open>\<^verbatim>\<open>nats.RetryWait(d)\<close> and \<^verbatim>\<open>nats.RetryAttempts(n)\<close>.\<close>

datatype PubOpt = PubRetryWait Duration | PubRetryAttempts int

record WriterParams =
  Conn :: Conn
  Subject :: string
  BatchSize :: int
  RetryWait :: Duration
  RetryAttempts :: int

record Writer =
  subject :: string
  batchSize :: int
  publishOpts :: "PubOpt list"
  retryWait :: Duration
  retryAttempts :: int

text \<open>
  The record that \<^verbatim>\<open>Write\<close> receives. \<^verbatim>\<open>Payload.After\<close> is a value of the interface
  \<^verbatim>\<open>sdk.Data\<close>: \<open>None\<close> is the \<^verbatim>\<open>nil\<close> interface, which a record has that carries no
  "after" state (a delete), and \<open>Some b\<close> is a value whose method \<^verbatim>\<open>Bytes()\<close> returns
  \<open>b\<close>.
\<close>

record Change =
  After :: "bytes option"

record WriteRecord =
  WPayload :: Change

definition getPublishOptions :: "WriterParams \<Rightarrow> PubOpt list" where
  "getPublishOptions params =
     (let opts = [];
          opts = (if RetryWait params \<noteq> 0 then opts @ [PubRetryWait (RetryWait params)]
                  else opts);
          opts = (if RetryAttempts params \<noteq> 0
                  then opts @ [PubRetryAttempts (RetryAttempts params)]
                  else opts)
      in opts)"

definition NewWriter :: "WriterParams \<Rightarrow> error + Writer" where
  "NewWriter params =
     (case JetStream (WriterParams.Conn params) of
        Inl err \<Rightarrow> Inl (Errorf ''get jetstream context'' err)
      | Inr jetstream \<Rightarrow>
          Inr \<lparr>subject = WriterParams.Subject params,
               batchSize = BatchSize params,
               publishOpts = getPublishOptions params,
               retryWait = RetryWait params,
               retryAttempts = RetryAttempts params\<rparr>)"

text \<open>
  \<^verbatim>\<open>Write\<close>. \<open>publish subject data opts\<close> is the answer of the broker to
  \<^verbatim>\<open>jetstream.Publish\<close>; the result is the error and the publish calls made, each with
  its subject, payload and options. The arguments of \<^verbatim>\<open>Publish\<close> are evaluated before
  the call, and \<^verbatim>\<open>record.Payload.After.Bytes()\<close> on a \<^verbatim>\<open>nil\<close> interface panics.
\<close>

definition Write ::
  "(string \<Rightarrow> bytes \<Rightarrow> PubOpt list \<Rightarrow> error option) \<Rightarrow> Writer \<Rightarrow> WriteRecord
     \<Rightarrow> error option \<times> (string \<times> bytes \<times> PubOpt list) list" where
  "Write publish w r =
     (if batchSize w > 1 then (Some ErrUnimplemented, [])
      else
        (case After (WPayload r) of
           None \<Rightarrow> (Some (Panic ''invalid memory address or nil pointer dereference''), [])
         | Some payload \<Rightarrow>
             (case publish (subject w) payload (publishOpts w) of
                Some err \<Rightarrow>
                  (Some (Errorf ''publish sync'' err), [(subject w, payload, publishOpts w)])
              | None \<Rightarrow> (None, [(subject w, payload, publishOpts w)]))))"

subsection \<open>Concrete data\<close>

text \<open>
  Data on which the theorems below are applied. \<open>exampleMarshal\<close> is a sample codec, used
  where a theorem about every codec is applied to one: the five fields of the position,
  numbers in decimal, separated by slashes. \<open>fixedParse pos\<close> decodes every token to \<open>pos\<close>.
\<close>

function showNat :: "nat \<Rightarrow> string" where
  "showNat n = (if n < 10 then [''0123456789'' ! n]
                else showNat (n div 10) @ [''0123456789'' ! (n mod 10)])"
  by pat_completeness auto
termination
  by (relation "measure id") auto

declare showNat.simps [simp del]

definition showInt :: "int \<Rightarrow> string" where
  "showInt k = (if k < 0 then ''-'' @ showNat (nat (- k)) else showNat (nat k))"

definition exampleMarshal :: marshaller where
  "exampleMarshal p =
     Inr (position.Durable p @ ''/'' @ position.Stream p @ ''/'' @
          position.Subject p @ ''/'' @ showInt (position.Timestamp p) @ ''/'' @
          showNat (unat (OptSeq p)))"

definition fixedParse :: "position \<Rightarrow> parser" where
  "fixedParse pos token = Inr pos"

definition exampleInfo :: "AckPolicy \<Rightarrow> ConsumerInfo" where
  "exampleInfo pol =
     \<lparr>ConsumerInfo.Stream = ''orders'', Name = ''conduit'',
      Config = \<lparr>ConsumerConfig.Durable = ''conduit'', ReplayPolicy = ReplayInstantPolicy,
                DeliverSubject = ''conduit.orders'', DeliverPolicy = DeliverAllPolicy,
                OptStartSeq = 0, AckPolicy = pol, FlowControl = True,
                Heartbeat = heartbeatTimeout\<rparr>\<rparr>"

text \<open>An iterator with the given ack policy, channel buffer and unacknowledged slice.\<close>

definition exampleIterator :: "AckPolicy \<Rightarrow> Msg list \<Rightarrow> Msg list \<Rightarrow> Iterator" where
  "exampleIterator pol chan unack =
     \<lparr>messages = chan, unackMessages = unack, consumerInfo = exampleInfo pol,
      subscription = \<lparr>Subscription.Subject = ''orders.new''\<rparr>\<rparr>"

text \<open>A message with stream sequence \<open>s\<close> and broker timestamp \<open>t\<close>, and a message whose
  metadata the library cannot read.\<close>

definition exampleMetadata :: "64 word \<Rightarrow> Time \<Rightarrow> MsgMetadata" where
  "exampleMetadata s t = \<lparr>Sequence = \<lparr>Consumer = 1, Stream = s\<rparr>, Timestamp = t\<rparr>"

definition exampleMsg :: "64 word \<Rightarrow> Time \<Rightarrow> Msg" where
  "exampleMsg s t = \<lparr>Data = ''payload'', Metadata = Inr (exampleMetadata s t)\<rparr>"

text \<open>The same stream message delivered a second time: the stream sequence and the
  timestamp are those of the first delivery, the consumer sequence is the next one.\<close>

definition redeliveredMsg :: "64 word \<Rightarrow> Time \<Rightarrow> Msg" where
  "redeliveredMsg s t =
     \<lparr>Data = ''payload'',
      Metadata = Inr \<lparr>Sequence = \<lparr>Consumer = 2, Stream = s\<rparr>, Timestamp = t\<rparr>\<rparr>"

definition unreadableMsg :: Msg where
  "unreadableMsg =
     \<lparr>Data = ''payload'', Metadata = Inl (LibError ''nats: not a jetstream message'')\<rparr>"

text \<open>A broker that accepts every acknowledge, and one that refuses every one.\<close>

definition brokerAcks :: "Msg \<Rightarrow> error option" where
  "brokerAcks m = None"

definition brokerDown :: "Msg \<Rightarrow> error option" where
  "brokerDown m = Some (LibError ''nats: timeout'')"

definition publishOk :: "string \<Rightarrow> bytes \<Rightarrow> PubOpt list \<Rightarrow> error option" where
  "publishOk subj payload opts = None"

definition publishDown :: "string \<Rightarrow> bytes \<Rightarrow> PubOpt list \<Rightarrow> error option" where
  "publishDown subj payload opts = Some (LibError ''nats: timeout'')"

definition exampleConn :: Conn where
  "exampleConn =
     \<lparr>JetStream = Inr \<lparr>AddConsumer = (\<lambda>stream cfg.
                                         Inr \<lparr>ConsumerInfo.Stream = stream,
                                              Name = ConsumerConfig.Durable cfg,
                                              Config = cfg\<rparr>),
                        ChanSubscribe = (\<lambda>subj durable.
                                           Inr \<lparr>Subscription.Subject = subj\<rparr>)\<rparr>\<rparr>"

definition exampleParams :: "DeliverPolicy \<Rightarrow> AckPolicy \<Rightarrow> IteratorParams" where
  "exampleParams dp ap =
     \<lparr>IteratorParams.Conn = exampleConn, BufferSize = 64, Durable = ''conduit'',
      Stream = ''orders'', Subject = ''orders.new'', SDKPosition = ''token'',
      DeliverPolicy = dp, AckPolicy = ap\<rparr>"

definition examplePosition :: "64 word \<Rightarrow> position" where
  "examplePosition n =
     \<lparr>position.Durable = ''conduit'', Stream = ''orders'', Subject = ''orders.new'',
      Timestamp = 77, OptSeq = n\<rparr>"

definition exampleWriter :: "int \<Rightarrow> Writer" where
  "exampleWriter n =
     \<lparr>subject = ''orders.new'', batchSize = n,
      publishOpts = [PubRetryWait (5 * Second), PubRetryAttempts 3],
      retryWait = 5 * Second, retryAttempts = 3\<rparr>"

definition exampleWriterParams :: "int \<Rightarrow> WriterParams" where
  "exampleWriterParams n =
     \<lparr>WriterParams.Conn = exampleConn, Subject = ''orders.new'', BatchSize = n,
      RetryWait = 5 * Second, RetryAttempts = 3\<rparr>"

text \<open>A record with an "after" payload, and a delete record, which has none.\<close>

definition exampleRecord :: WriteRecord where
  "exampleRecord = \<lparr>WPayload = \<lparr>After = Some ''payload''\<rparr>\<rparr>"

definition deleteRecord :: WriteRecord where
  "deleteRecord = \<lparr>WPayload = \<lparr>After = None\<rparr>\<rparr>"

section \<open>What the iterator never changes\<close>

text \<open>
  \<^verbatim>\<open>consumerInfo\<close> and \<^verbatim>\<open>subscription\<close> are set by \<^verbatim>\<open>NewIterator\<close> and never assigned
  again, and the position of a message is computed from these two fields and the message.
\<close>

lemma getMessagePosition_frame:
  "consumerInfo i' = consumerInfo i \<Longrightarrow> subscription i' = subscription i \<Longrightarrow>
   getMessagePosition mar i' m = getMessagePosition mar i m"
  by (simp add: getMessagePosition_def messagePosition_def split: sum.splits)

lemma Next_frame:
  "Next mar now pick ctx i = Some (res, i') \<Longrightarrow>
   consumerInfo i' = consumerInfo i \<and> subscription i' = subscription i"
  by (auto simp: Next_def Let_def split: list.splits option.splits sum.splits if_splits)

lemma Ack_frame:
  "consumerInfo (fst (snd (Ack mar msgAck i pos))) = consumerInfo i \<and>
   subscription (fst (snd (Ack mar msgAck i pos))) = subscription i"
  by (simp add: Ack_def split: list.splits option.splits)

lemma step_frame:
  "consumerInfo (step mar i ev) = consumerInfo i \<and>
   subscription (step mar i ev) = subscription i"
proof (cases ev)
  case (Deliver m)
  then show ?thesis by simp
next
  case (CallNext now pick ctx)
  then show ?thesis
    by (cases "Next mar now pick ctx i") (auto dest: Next_frame)
next
  case (CallAck msgAck pos)
  then show ?thesis using Ack_frame [of mar msgAck i pos] by simp
qed

lemma run_frame:
  "consumerInfo (run mar i evs) = consumerInfo i \<and>
   subscription (run mar i evs) = subscription i"
  unfolding run_def
  by (induction evs arbitrary: i) (simp_all add: step_frame)

lemma NewIterator_empty:
  "NewIterator parsePosition params = Inr i \<Longrightarrow> messages i = [] \<and> unackMessages i = []"
  by (auto simp: NewIterator_def split: sum.splits if_splits)

section \<open>The consumer configuration\<close>

text \<open>
  Claim C2. Whatever the parameters and the decoded resume position: when the position
  decodes, \<open>getConsumerConfig\<close> returns a configuration; if \<open>OptSeq\<close> of the position is
  not zero, its deliver policy is "deliver by start sequence" and its start sequence is
  \<open>OptSeq\<close>; if \<open>OptSeq\<close> is zero, its deliver policy is the configured one, unmodified,
  and its start sequence is zero.
\<close>

theorem getConsumerConfig_resume:
  assumes "parsePosition (SDKPosition params) = Inr pos"
  shows "\<exists>cfg. getConsumerConfig parsePosition params = Inr cfg \<and>
           ConsumerConfig.DeliverPolicy cfg =
             (if OptSeq pos \<noteq> 0 then DeliverByStartSequencePolicy
              else IteratorParams.DeliverPolicy params) \<and>
           OptStartSeq cfg = (if OptSeq pos \<noteq> 0 then OptSeq pos else 0)"
  using assms by (simp add: getConsumerConfig_def)

text \<open>Resuming at sequence 11 overrides the configured policy "new"; a position with
  sequence 0 leaves it.\<close>

theorem getConsumerConfig_resume_witness:
  "fixedParse (examplePosition 11)
     (SDKPosition (exampleParams DeliverNewPolicy AckExplicitPolicy))
     = Inr (examplePosition 11) \<and>
   (\<exists>cfg. getConsumerConfig (fixedParse (examplePosition 11))
             (exampleParams DeliverNewPolicy AckExplicitPolicy) = Inr cfg \<and>
          ConsumerConfig.DeliverPolicy cfg = DeliverByStartSequencePolicy \<and>
          OptStartSeq cfg = 11) \<and>
   fixedParse (examplePosition 0)
     (SDKPosition (exampleParams DeliverNewPolicy AckExplicitPolicy))
     = Inr (examplePosition 0) \<and>
   (\<exists>cfg. getConsumerConfig (fixedParse (examplePosition 0))
             (exampleParams DeliverNewPolicy AckExplicitPolicy) = Inr cfg \<and>
          ConsumerConfig.DeliverPolicy cfg = DeliverNewPolicy \<and>
          OptStartSeq cfg = 0)"
proof -
  let ?ps = "exampleParams DeliverNewPolicy AckExplicitPolicy"
  have h11: "fixedParse (examplePosition 11) (SDKPosition ?ps) = Inr (examplePosition 11)"
    by (simp add: fixedParse_def)
  have h0: "fixedParse (examplePosition 0) (SDKPosition ?ps) = Inr (examplePosition 0)"
    by (simp add: fixedParse_def)
  have p: "IteratorParams.DeliverPolicy ?ps = DeliverNewPolicy"
    by (simp add: exampleParams_def)
  show ?thesis
    using h11 h0 p
      getConsumerConfig_resume
        [of "fixedParse (examplePosition 11)" ?ps "examplePosition 11", OF h11]
      getConsumerConfig_resume
        [of "fixedParse (examplePosition 0)" ?ps "examplePosition 0", OF h0]
    by (simp add: examplePosition_def)
qed

section \<open>The publish options\<close>

text \<open>
  Claim C8. \<open>getPublishOptions\<close> is a function of the two retry parameters and always
  returns: the wait option is absent exactly when \<open>RetryWait\<close> is the zero duration, the
  attempts option is absent exactly when \<open>RetryAttempts\<close> is zero, so the result is empty
  exactly for (0, 0) and is the two options carrying the two values, wait first, exactly
  when both are non-zero; no other option is ever produced.
\<close>

theorem getPublishOptions_omits:
  "((\<exists>d. PubRetryWait d \<in> set (getPublishOptions p)) = (RetryWait p \<noteq> 0)) \<and>
   ((\<exists>n. PubRetryAttempts n \<in> set (getPublishOptions p)) = (RetryAttempts p \<noteq> 0)) \<and>
   ((getPublishOptions p = []) = (RetryWait p = 0 \<and> RetryAttempts p = 0)) \<and>
   ((getPublishOptions p = [PubRetryWait (RetryWait p), PubRetryAttempts (RetryAttempts p)])
      = (RetryWait p \<noteq> 0 \<and> RetryAttempts p \<noteq> 0)) \<and>
   set (getPublishOptions p)
     \<subseteq> {PubRetryWait (RetryWait p), PubRetryAttempts (RetryAttempts p)} \<and>
   distinct (getPublishOptions p)"
  by (auto simp: getPublishOptions_def)

section \<open>Reading: \<open>Next\<close>\<close>

text \<open>The two branches of the \<^verbatim>\<open>select\<close>, and what a returned record was built from.\<close>

lemma Next_receive:
  assumes "messages i = m # ms" and "ctx = None \<or> pick = CaseMessage"
  shows "Next mar now pick ctx i =
           Some (case messageToRecord mar now i m of
                   Inl err \<Rightarrow>
                     (Inl (Errorf ''convert message to record'' err), i\<lparr>messages := ms\<rparr>)
                 | Inr r \<Rightarrow>
                     (Inr r,
                      if ConsumerConfig.AckPolicy (Config (consumerInfo i)) \<noteq> AckNonePolicy
                      then i\<lparr>messages := ms, unackMessages := unackMessages i @ [m]\<rparr>
                      else i\<lparr>messages := ms\<rparr>))"
  using assms by (auto simp: Next_def split: option.splits)

lemma messageToRecord_ok:
  assumes "Metadata m = Inr md" and "mar (messagePosition i md) = Inr b"
  shows "messageToRecord mar now i m =
           Inr \<lparr>Position = b,
                CreatedAt = (if IsZero (MsgMetadata.Timestamp md) then now
                             else MsgMetadata.Timestamp md),
                Payload = Data m\<rparr>"
  using assms by (simp add: messageToRecord_def getMessagePosition_def)

lemma messageToRecord_Inr:
  assumes "messageToRecord mar now i m = Inr r"
  shows "\<exists>md. Metadata m = Inr md \<and> mar (messagePosition i md) = Inr (Position r) \<and>
              CreatedAt r = (if IsZero (MsgMetadata.Timestamp md) then now
                             else MsgMetadata.Timestamp md) \<and>
              Payload r = Data m"
  using assms
  by (auto simp: messageToRecord_def getMessagePosition_def split: sum.splits)

lemma Next_record:
  assumes "Next mar now pick ctx i = Some (Inr r, i')"
  shows "\<exists>m ms. messages i = m # ms \<and> messageToRecord mar now i m = Inr r \<and>
           i' = (if ConsumerConfig.AckPolicy (Config (consumerInfo i)) \<noteq> AckNonePolicy
                 then i\<lparr>messages := ms, unackMessages := unackMessages i @ [m]\<rparr>
                 else i\<lparr>messages := ms\<rparr>)"
  using assms
  by (auto simp: Next_def split: list.splits option.splits sum.splits if_splits)

text \<open>The sample codec on the message with stream sequence 10 and timestamp 77, and
  \<open>NewIterator\<close> on the sample parameters.\<close>

lemma example_position:
  "getMessagePosition exampleMarshal (exampleIterator pol chan unack) (exampleMsg 10 77)
     = Inr ''conduit/orders/orders.new/77/11''"
  by (simp add: getMessagePosition_def messagePosition_def exampleMarshal_def
      exampleIterator_def exampleInfo_def exampleMsg_def exampleMetadata_def showInt_def
      showNat.simps)

lemma example_NewIterator:
  "NewIterator (fixedParse (examplePosition 0)) (exampleParams DeliverAllPolicy pol)
     = Inr (exampleIterator pol [] [])"
  by (simp add: NewIterator_def getConsumerConfig_def fixedParse_def examplePosition_def
      exampleParams_def exampleConn_def exampleIterator_def exampleInfo_def)

text \<open>
  Claim C6. When the context is done and \<open>Next\<close> has nothing to receive (it is blocked), or
  the \<^verbatim>\<open>select\<close> takes the done case although a message is pending, \<open>Next\<close> returns the
  error of the context and the iterator is exactly as before: no record, the
  unacknowledged messages untouched, the pending message still in the channel.
  Conversely a context error is returned by no other path, so whenever \<open>Next\<close> fails with
  it nothing has changed.
\<close>

theorem Next_cancelled:
  assumes "ctx = Some e" and "messages i = [] \<or> pick = CaseDone"
  shows "Next mar now pick ctx i = Some (Inl (ContextErr e), i) \<and>
         (\<forall>mar' now' pick' ctx' e' i'.
            Next mar' now' pick' ctx' i = Some (Inl (ContextErr e'), i') \<longrightarrow>
            ctx' = Some e' \<and> i' = i)"
  using assms
  by (auto simp: Next_def split: list.splits option.splits sum.splits if_splits)

text \<open>A blocked call that is cancelled, and a cancelled call with a message pending.\<close>

theorem Next_cancelled_witness:
  "Next exampleMarshal 5 CaseMessage (Some Canceled) (exampleIterator AckExplicitPolicy [] [exampleMsg 10 77])
     = Some (Inl (ContextErr Canceled), exampleIterator AckExplicitPolicy [] [exampleMsg 10 77]) \<and>
   Next exampleMarshal 5 CaseDone (Some Canceled)
       (exampleIterator AckExplicitPolicy [exampleMsg 11 78] [exampleMsg 10 77])
     = Some (Inl (ContextErr Canceled),
             exampleIterator AckExplicitPolicy [exampleMsg 11 78] [exampleMsg 10 77])"
proof -
  have a: "messages (exampleIterator AckExplicitPolicy [] [exampleMsg 10 77]) = [] \<or> CaseMessage = CaseDone"
    by (simp add: exampleIterator_def)
  have b: "messages (exampleIterator AckExplicitPolicy [exampleMsg 11 78] [exampleMsg 10 77]) = []
             \<or> CaseDone = CaseDone"
    by simp
  show ?thesis
    using Next_cancelled [OF refl a, where e = Canceled and mar = exampleMarshal and now = 5]
      Next_cancelled [OF refl b, where e = Canceled and mar = exampleMarshal and now = 5]
    by simp
qed

text \<open>
  Claim C9. For a message at the head of the channel whose metadata is \<open>md\<close>: every record
  that \<open>Next\<close> returns for it has \<open>CreatedAt\<close> equal to the reading of the clock when the
  broker timestamp is the zero time (so it is not the zero time, the clock not being at
  the zero time), and equal to the broker timestamp otherwise; and \<open>Next\<close> does return
  such a record when the position can be encoded and the receive case is taken.
\<close>

theorem Next_createdAt:
  assumes "messages i = m # ms" and "Metadata m = Inr md"
  shows "(\<forall>r i'. Next mar now pick ctx i = Some (Inr r, i') \<longrightarrow>
            CreatedAt r = (if IsZero (MsgMetadata.Timestamp md) then now
                           else MsgMetadata.Timestamp md) \<and>
            (\<not> IsZero now \<longrightarrow> \<not> IsZero (CreatedAt r))) \<and>
         (\<forall>b. mar (messagePosition i md) = Inr b \<and> (ctx = None \<or> pick = CaseMessage) \<longrightarrow>
            (\<exists>r i'. Next mar now pick ctx i = Some (Inr r, i') \<and>
               CreatedAt r = (if IsZero (MsgMetadata.Timestamp md) then now
                              else MsgMetadata.Timestamp md)))"
proof (intro conjI allI impI)
  fix r i'
  assume n: "Next mar now pick ctx i = Some (Inr r, i')"
  from Next_record [OF n] assms(1) have "messageToRecord mar now i m = Inr r"
    by auto
  from messageToRecord_Inr [OF this] assms(2)
  show c: "CreatedAt r = (if IsZero (MsgMetadata.Timestamp md) then now
                       else MsgMetadata.Timestamp md)"
    by auto
  assume "\<not> IsZero now"
  with c show "\<not> IsZero (CreatedAt r)" by auto
next
  fix b
  assume h: "mar (messagePosition i md) = Inr b \<and> (ctx = None \<or> pick = CaseMessage)"
  then show "\<exists>r i'. Next mar now pick ctx i = Some (Inr r, i') \<and>
               CreatedAt r = (if IsZero (MsgMetadata.Timestamp md) then now
                              else MsgMetadata.Timestamp md)"
    using Next_receive [OF assms(1), of ctx pick mar now] messageToRecord_ok [OF assms(2), of mar i b now]
    by simp
qed

text \<open>A message with timestamp zero read at clock 1234, and one with timestamp 77.\<close>

theorem Next_createdAt_witness:
  "messages (exampleIterator AckExplicitPolicy [exampleMsg 10 0] []) = [exampleMsg 10 0] \<and>
   Metadata (exampleMsg 10 0) = Inr (exampleMetadata 10 0) \<and>
   IsZero (MsgMetadata.Timestamp (exampleMetadata 10 0)) \<and>
   (\<exists>r i'. Next exampleMarshal 1234 CaseMessage None
              (exampleIterator AckExplicitPolicy [exampleMsg 10 0] []) = Some (Inr r, i') \<and>
           CreatedAt r = 1234) \<and>
   messages (exampleIterator AckExplicitPolicy [exampleMsg 10 77] []) = [exampleMsg 10 77] \<and>
   Metadata (exampleMsg 10 77) = Inr (exampleMetadata 10 77) \<and>
   \<not> IsZero (MsgMetadata.Timestamp (exampleMetadata 10 77)) \<and>
   (\<exists>r i'. Next exampleMarshal 1234 CaseMessage None
              (exampleIterator AckExplicitPolicy [exampleMsg 10 77] []) = Some (Inr r, i') \<and>
           CreatedAt r = 77)"
proof -
  let ?i0 = "exampleIterator AckExplicitPolicy [exampleMsg 10 0] []"
  let ?i77 = "exampleIterator AckExplicitPolicy [exampleMsg 10 77] []"
  have c0: "messages ?i0 = exampleMsg 10 0 # []" and c77: "messages ?i77 = exampleMsg 10 77 # []"
    by (simp_all add: exampleIterator_def)
  have m0: "Metadata (exampleMsg 10 0) = Inr (exampleMetadata 10 0)"
    and m77: "Metadata (exampleMsg 10 77) = Inr (exampleMetadata 10 77)"
    by (simp_all add: exampleMsg_def)
  have z0: "IsZero (MsgMetadata.Timestamp (exampleMetadata 10 0))"
    and z77: "\<not> IsZero (MsgMetadata.Timestamp (exampleMetadata 10 77))"
    by (simp_all add: IsZero_def exampleMetadata_def)
  have t77: "MsgMetadata.Timestamp (exampleMetadata 10 77) = 77"
    by (simp add: exampleMetadata_def)
  have p0: "\<exists>b. exampleMarshal (messagePosition ?i0 (exampleMetadata 10 0)) = Inr b"
    and p77: "\<exists>b. exampleMarshal (messagePosition ?i77 (exampleMetadata 10 77)) = Inr b"
    by (simp_all add: exampleMarshal_def)
  have r0: "\<exists>r i'. Next exampleMarshal 1234 CaseMessage None ?i0 = Some (Inr r, i') \<and>
              CreatedAt r = 1234"
    using Next_createdAt [OF c0 m0, where mar = exampleMarshal and now = 1234
        and pick = CaseMessage and ctx = None] p0 z0
    by auto
  have r77: "\<exists>r i'. Next exampleMarshal 1234 CaseMessage None ?i77 = Some (Inr r, i') \<and>
              CreatedAt r = 77"
    using Next_createdAt [OF c77 m77, where mar = exampleMarshal and now = 1234
        and pick = CaseMessage and ctx = None] p77 z77 t77
    by auto
  show ?thesis
    using c0 c77 m0 m77 z0 z77 r0 r77 by simp
qed

section \<open>Acknowledging: \<open>Ack\<close>\<close>

text \<open>With the policy "none" no event changes the unacknowledged messages.\<close>

lemma step_unack_none:
  assumes "ConsumerConfig.AckPolicy (Config (consumerInfo i)) = AckNonePolicy"
  shows "unackMessages (step mar i ev) = unackMessages i"
proof (cases ev)
  case (Deliver m)
  then show ?thesis by simp
next
  case (CallNext now pick ctx)
  with assms show ?thesis
    by (auto simp: Next_def split: list.splits option.splits sum.splits)
next
  case (CallAck msgAck pos)
  with assms show ?thesis by (simp add: Ack_def)
qed

lemma run_unack_none:
  assumes "ConsumerConfig.AckPolicy (Config (consumerInfo i)) = AckNonePolicy"
  shows "unackMessages (run mar i evs) = unackMessages i"
  using assms unfolding run_def
proof (induction evs arbitrary: i)
  case Nil
  then show ?case by simp
next
  case (Cons ev evs)
  have "ConsumerConfig.AckPolicy (Config (consumerInfo (step mar i ev))) = AckNonePolicy"
    using Cons.prems by (simp add: step_frame)
  from Cons.IH [OF this] show ?case
    using Cons.prems by (simp add: step_unack_none)
qed

text \<open>
  Claim C3. When the ack policy is "none": \<open>Ack\<close> returns success for every position,
  codec and broker, with the iterator unchanged and no call to the broker; no \<open>Next\<close>
  changes the unacknowledged messages; so they stay as they are over every sequence of
  deliveries, \<open>Next\<close> and \<open>Ack\<close> calls, and are empty forever on an iterator that
  \<open>NewIterator\<close> returned.
\<close>

theorem Ack_none_bypass:
  assumes "ConsumerConfig.AckPolicy (Config (consumerInfo i)) = AckNonePolicy"
  shows "(\<forall>mar msgAck pos. Ack mar msgAck i pos = (None, i, [])) \<and>
         (\<forall>mar now pick ctx res i'.
            Next mar now pick ctx i = Some (res, i') \<longrightarrow> unackMessages i' = unackMessages i) \<and>
         (\<forall>mar evs. unackMessages (run mar i evs) = unackMessages i) \<and>
         (\<forall>parsePosition params mar evs.
            NewIterator parsePosition params = Inr i \<longrightarrow> unackMessages (run mar i evs) = [])"
proof (intro conjI allI impI)
  fix mar msgAck pos
  show "Ack mar msgAck i pos = (None, i, [])"
    using assms by (simp add: Ack_def)
next
  fix mar now pick ctx res i'
  assume "Next mar now pick ctx i = Some (res, i')"
  then show "unackMessages i' = unackMessages i"
    using step_unack_none [OF assms, of mar "CallNext now pick ctx"] by simp
next
  fix mar evs
  show "unackMessages (run mar i evs) = unackMessages i"
    by (rule run_unack_none [OF assms])
next
  fix parsePosition params mar evs
  assume "NewIterator parsePosition params = Inr i"
  then show "unackMessages (run mar i evs) = []"
    using run_unack_none [OF assms, of mar evs] NewIterator_empty by simp
qed

text \<open>The iterator that \<open>NewIterator\<close> builds with the policy "none", over two deliveries,
  two \<open>Next\<close> and an \<open>Ack\<close>.\<close>

theorem Ack_none_bypass_witness:
  "ConsumerConfig.AckPolicy (Config (consumerInfo (exampleIterator AckNonePolicy [] [])))
     = AckNonePolicy \<and>
   NewIterator (fixedParse (examplePosition 0)) (exampleParams DeliverAllPolicy AckNonePolicy)
     = Inr (exampleIterator AckNonePolicy [] []) \<and>
   Ack exampleMarshal brokerDown (exampleIterator AckNonePolicy [] []) ''any position''
     = (None, exampleIterator AckNonePolicy [] [], []) \<and>
   unackMessages (run exampleMarshal (exampleIterator AckNonePolicy [] [])
      [Deliver (exampleMsg 10 77), CallNext 5 CaseMessage None,
       CallAck brokerAcks ''conduit/orders/orders.new/77/11'',
       Deliver (exampleMsg 11 78), CallNext 5 CaseMessage None]) = []"
proof -
  have pol: "ConsumerConfig.AckPolicy (Config (consumerInfo (exampleIterator AckNonePolicy [] [])))
               = AckNonePolicy"
    by (simp add: exampleIterator_def exampleInfo_def)
  have emp: "unackMessages (exampleIterator AckNonePolicy [] []) = []"
    by (simp add: exampleIterator_def)
  show ?thesis
    using pol emp example_NewIterator [of AckNonePolicy] Ack_none_bypass [OF pol]
    by simp
qed

text \<open>
  Claim C10. With an ack policy other than "none", a non-empty queue and a requested
  position equal to the position of the head: if the broker refuses the acknowledge of
  the head, \<open>Ack\<close> returns that error, wrapped, and the iterator is unchanged. The queue
  changes in an \<open>Ack\<close> only if the broker accepted the acknowledge of the head, and then
  it loses exactly the head.
\<close>

theorem Ack_broker_failure:
  assumes "ConsumerConfig.AckPolicy (Config (consumerInfo i)) \<noteq> AckNonePolicy"
    and "unackMessages i = m # ms"
    and "getMessagePosition mar i m = Inr pos"
    and "msgAck m = Some e"
  shows "Ack mar msgAck i pos = (Some (Errorf ''ack message'' e), i, [m]) \<and>
         (\<forall>mar' msgAck' pos'.
            unackMessages (fst (snd (Ack mar' msgAck' i pos'))) \<noteq> unackMessages i \<longrightarrow>
            msgAck' m = None \<and> fst (Ack mar' msgAck' i pos') = None \<and>
            unackMessages (fst (snd (Ack mar' msgAck' i pos'))) = ms)"
  using assms by (auto simp: Ack_def canAck_def split: option.splits sum.splits if_splits)

text \<open>Two unacknowledged messages, the right position, a broker that times out.\<close>

theorem Ack_broker_failure_witness:
  "ConsumerConfig.AckPolicy
     (Config (consumerInfo (exampleIterator AckExplicitPolicy [] [exampleMsg 10 77, exampleMsg 11 78])))
     \<noteq> AckNonePolicy \<and>
   getMessagePosition exampleMarshal
     (exampleIterator AckExplicitPolicy [] [exampleMsg 10 77, exampleMsg 11 78]) (exampleMsg 10 77)
     = Inr ''conduit/orders/orders.new/77/11'' \<and>
   brokerDown (exampleMsg 10 77) = Some (LibError ''nats: timeout'') \<and>
   Ack exampleMarshal brokerDown
     (exampleIterator AckExplicitPolicy [] [exampleMsg 10 77, exampleMsg 11 78])
     ''conduit/orders/orders.new/77/11''
     = (Some (Errorf ''ack message'' (LibError ''nats: timeout'')),
        exampleIterator AckExplicitPolicy [] [exampleMsg 10 77, exampleMsg 11 78],
        [exampleMsg 10 77])"
proof -
  let ?i = "exampleIterator AckExplicitPolicy [] [exampleMsg 10 77, exampleMsg 11 78]"
  have pol: "ConsumerConfig.AckPolicy (Config (consumerInfo ?i)) \<noteq> AckNonePolicy"
    by (simp add: exampleIterator_def exampleInfo_def)
  have q: "unackMessages ?i = exampleMsg 10 77 # [exampleMsg 11 78]"
    by (simp add: exampleIterator_def)
  have d: "brokerDown (exampleMsg 10 77) = Some (LibError ''nats: timeout'')"
    by (simp add: brokerDown_def)
  show ?thesis
    using pol d example_position
      Ack_broker_failure [where mar = exampleMarshal and msgAck = brokerDown,
        OF pol q example_position d]
    by simp
qed

section \<open>Writing: \<open>Write\<close>\<close>

text \<open>
  What \<open>Write\<close> does, case by case. With a batch size greater than 1 it returns
  \<open>ErrUnimplemented\<close> and makes no publish call. With a batch size of 1 (or less) and a
  record whose "after" payload is present, it makes exactly one publish call, with the
  configured subject, the bytes of that payload and the publish options of the writer,
  which for a writer built by \<open>NewWriter\<close> are those that \<open>getPublishOptions\<close> derives; it
  returns success when the broker accepts, and the broker's error wrapped in "publish
  sync" when it does not. With a batch size of 1 (or less) and a record whose "after"
  payload is \<^verbatim>\<open>nil\<close>, it panics and makes no publish call.
\<close>

lemma Write_cases:
  "(batchSize w > 1 \<longrightarrow> Write publish w r = (Some ErrUnimplemented, [])) \<and>
   (\<forall>b. batchSize w \<le> 1 \<and> After (WPayload r) = Some b \<longrightarrow>
      snd (Write publish w r) = [(subject w, b, publishOpts w)] \<and>
      fst (Write publish w r) =
        map_option (Errorf ''publish sync'') (publish (subject w) b (publishOpts w))) \<and>
   (batchSize w \<le> 1 \<and> After (WPayload r) = None \<longrightarrow>
      Write publish w r =
        (Some (Panic ''invalid memory address or nil pointer dereference''), [])) \<and>
   (\<forall>params. NewWriter params = Inr w \<longrightarrow>
      subject w = WriterParams.Subject params \<and> batchSize w = BatchSize params \<and>
      publishOpts w = getPublishOptions params)"
  by (auto simp: Write_def NewWriter_def split: option.splits sum.splits)

text \<open>Batch size 5; batch size 1 with a broker that accepts and one that times out.\<close>

lemma Write_examples:
  "Write publishOk (exampleWriter 5) exampleRecord = (Some ErrUnimplemented, []) \<and>
   Write publishOk (exampleWriter 5) deleteRecord = (Some ErrUnimplemented, []) \<and>
   Write publishOk (exampleWriter 1) exampleRecord =
     (None, [(''orders.new'', ''payload'', [PubRetryWait (5 * Second), PubRetryAttempts 3])]) \<and>
   Write publishDown (exampleWriter 1) exampleRecord =
     (Some (Errorf ''publish sync'' (LibError ''nats: timeout'')),
      [(''orders.new'', ''payload'', [PubRetryWait (5 * Second), PubRetryAttempts 3])]) \<and>
   NewWriter (exampleWriterParams 1) = Inr (exampleWriter 1)"
  by (simp add: Write_def NewWriter_def exampleWriterParams_def exampleWriter_def
      exampleConn_def exampleRecord_def deleteRecord_def publishOk_def publishDown_def
      getPublishOptions_def Second_def)

text \<open>
  Claim C7 says that with batch size 1 \<open>Write\<close> publishes the "after" payload of the
  record and surfaces a publish failure as an error. On the writer that \<open>NewWriter\<close>
  builds with batch size 1 and a delete record, whose "after" payload is \<^verbatim>\<open>nil\<close>, the
  code does neither: it panics on the \<^verbatim>\<open>nil\<close> interface before \<^verbatim>\<open>Publish\<close> is called,
  whatever the broker would answer, while the same writer publishes a record that has a
  payload.
\<close>

theorem Write_nil_After_panics:
  "NewWriter (exampleWriterParams 1) = Inr (exampleWriter 1) \<and>
   batchSize (exampleWriter 1) = 1 \<and>
   After (WPayload deleteRecord) = None \<and>
   Write publishOk (exampleWriter 1) deleteRecord =
     (Some (Panic ''invalid memory address or nil pointer dereference''), []) \<and>
   Write publishDown (exampleWriter 1) deleteRecord =
     (Some (Panic ''invalid memory address or nil pointer dereference''), []) \<and>
   Write publishOk (exampleWriter 1) exampleRecord =
     (None, [(''orders.new'', ''payload'', [PubRetryWait (5 * Second), PubRetryAttempts 3])])"
  by (simp add: Write_def NewWriter_def exampleWriterParams_def exampleWriter_def
      exampleConn_def exampleRecord_def deleteRecord_def publishOk_def publishDown_def
      getPublishOptions_def Second_def)

section \<open>The position of a message\<close>

text \<open>The fields of the sample iterator, and the successor on \<^verbatim>\<open>uint64\<close>.\<close>

lemma example_fields:
  "messages (exampleIterator pol chan unack) = chan"
  "unackMessages (exampleIterator pol chan unack) = unack"
  "ConsumerConfig.AckPolicy (Config (consumerInfo (exampleIterator pol chan unack))) = pol"
  "(exampleIterator pol chan unack)\<lparr>messages := chan'\<rparr> = exampleIterator pol chan' unack"
  "(exampleIterator pol chan unack)\<lparr>unackMessages := unack'\<rparr>
     = exampleIterator pol chan unack'"
  "(exampleIterator pol chan unack)\<lparr>messages := chan', unackMessages := unack'\<rparr>
     = exampleIterator pol chan' unack'"
  by (simp_all add: exampleIterator_def exampleInfo_def)

lemma word64_succ_unat:
  fixes s :: "64 word"
  shows "unat (s + 1) = (unat s + 1) mod 2 ^ 64"
  by (simp add: unat_word_ariths)

lemma word64_succ_no_wrap:
  fixes s :: "64 word"
  assumes "unat s < 2 ^ 64 - 1"
  shows "unat (s + 1) = unat s + 1"
  using assms by (simp add: unat_word_ariths)

lemma word64_succ_mono:
  fixes s1 s2 :: "64 word"
  assumes "s1 < s2" and "unat s2 < 2 ^ 64 - 1"
  shows "s1 + 1 < s2 + 1"
proof -
  from assms have lt: "unat s1 < unat s2"
    by (simp add: word_less_nat_alt)
  with assms(2) have "unat s1 < 2 ^ 64 - 1" by simp
  then have "unat (s1 + 1) = unat s1 + 1" by (rule word64_succ_no_wrap)
  moreover have "unat (s2 + 1) = unat s2 + 1" using assms(2) by (rule word64_succ_no_wrap)
  ultimately show ?thesis using lt by (simp add: word_less_nat_alt)
qed

lemma canAck_head:
  assumes "unackMessages i = m # ms" and "Metadata m = Inr md"
    and "mar (messagePosition i md) = Inr b"
  shows "canAck mar i pos = (if b \<noteq> pos then Some (OutOfOrderAck pos b) else None)"
  using assms by (simp add: canAck_def getMessagePosition_def)

text \<open>
  Claim C4, amended. For a message whose stream sequence is \<open>s\<close>, the position that
  \<open>getMessagePosition\<close> encodes has \<open>OptSeq\<close> equal to \<open>s + 1\<close> in \<^verbatim>\<open>uint64\<close> arithmetic,
  that is \<open>(s + 1) mod 2\<^sup>6\<^sup>4\<close>: it is \<open>s + 1\<close> for every \<open>s\<close> below \<open>2\<^sup>6\<^sup>4 - 1\<close>. For two
  messages with stream sequences \<open>s1 < s2 < 2\<^sup>6\<^sup>4 - 1\<close> the derived values are strictly
  increasing. It is the encoding of this position that a record returned by \<open>Next\<close>
  carries, and that \<open>canAck\<close> compares with the requested position for the head of the
  queue.
\<close>

theorem messagePosition_optSeq:
  "OptSeq (messagePosition i md) = SequencePair.Stream (Sequence md) + 1 \<and>
   unat (OptSeq (messagePosition i md))
     = (unat (SequencePair.Stream (Sequence md)) + 1) mod 2 ^ 64 \<and>
   (unat (SequencePair.Stream (Sequence md)) < 2 ^ 64 - 1 \<longrightarrow>
      unat (OptSeq (messagePosition i md)) = unat (SequencePair.Stream (Sequence md)) + 1) \<and>
   (\<forall>md'. SequencePair.Stream (Sequence md) < SequencePair.Stream (Sequence md') \<and>
          unat (SequencePair.Stream (Sequence md')) < 2 ^ 64 - 1 \<longrightarrow>
          OptSeq (messagePosition i md) < OptSeq (messagePosition i md')) \<and>
   (\<forall>mar now pick ctx r i'.
      Next mar now pick ctx i = Some (Inr r, i') \<longrightarrow>
      (\<exists>m ms md0. messages i = m # ms \<and> Metadata m = Inr md0 \<and>
         mar (messagePosition i md0) = Inr (Position r))) \<and>
   (\<forall>mar m ms b pos.
      unackMessages i = m # ms \<and> Metadata m = Inr md \<and> mar (messagePosition i md) = Inr b \<longrightarrow>
      getMessagePosition mar i m = Inr b \<and>
      canAck mar i pos = (if b \<noteq> pos then Some (OutOfOrderAck pos b) else None))"
proof (intro conjI allI impI)
  show "OptSeq (messagePosition i md) = SequencePair.Stream (Sequence md) + 1"
    by (simp add: messagePosition_def)
  show "unat (OptSeq (messagePosition i md))
          = (unat (SequencePair.Stream (Sequence md)) + 1) mod 2 ^ 64"
    by (simp add: messagePosition_def word64_succ_unat)
next
  assume "unat (SequencePair.Stream (Sequence md)) < 2 ^ 64 - 1"
  then show "unat (OptSeq (messagePosition i md)) = unat (SequencePair.Stream (Sequence md)) + 1"
    by (simp add: messagePosition_def word64_succ_no_wrap)
next
  fix md' :: MsgMetadata
  assume "SequencePair.Stream (Sequence md) < SequencePair.Stream (Sequence md') \<and>
          unat (SequencePair.Stream (Sequence md')) < 2 ^ 64 - 1"
  then show "OptSeq (messagePosition i md) < OptSeq (messagePosition i md')"
    by (simp add: messagePosition_def word64_succ_mono)
next
  fix mar :: marshaller and now pick ctx and r :: Record and i'
  assume "Next mar now pick ctx i = Some (Inr r, i')"
  from Next_record [OF this] obtain m ms where
    "messages i = m # ms" and "messageToRecord mar now i m = Inr r"
    by blast
  with messageToRecord_Inr [of mar now i m r]
  show "\<exists>m ms md0. messages i = m # ms \<and> Metadata m = Inr md0 \<and>
         mar (messagePosition i md0) = Inr (Position r)"
    by blast
next
  fix mar :: marshaller and m :: Msg and ms :: "Msg list" and b pos :: bytes
  assume h: "unackMessages i = m # ms \<and> Metadata m = Inr md \<and> mar (messagePosition i md) = Inr b"
  then show "getMessagePosition mar i m = Inr b"
    by (simp add: getMessagePosition_def)
  from h show "canAck mar i pos = (if b \<noteq> pos then Some (OutOfOrderAck pos b) else None)"
    using canAck_head by blast
qed

text \<open>Stream sequences 10 and 11 give 11 and 12.\<close>

theorem messagePosition_optSeq_witness:
  "unat (SequencePair.Stream (Sequence (exampleMetadata 10 77))) < 2 ^ 64 - 1 \<and>
   unat (OptSeq (messagePosition (exampleIterator AckExplicitPolicy [] []) (exampleMetadata 10 77))) = 11 \<and>
   SequencePair.Stream (Sequence (exampleMetadata 10 77))
     < SequencePair.Stream (Sequence (exampleMetadata 11 78)) \<and>
   unat (SequencePair.Stream (Sequence (exampleMetadata 11 78))) < 2 ^ 64 - 1 \<and>
   OptSeq (messagePosition (exampleIterator AckExplicitPolicy [] []) (exampleMetadata 10 77))
     < OptSeq (messagePosition (exampleIterator AckExplicitPolicy [] []) (exampleMetadata 11 78))"
proof -
  have a: "unat (SequencePair.Stream (Sequence (exampleMetadata 10 77))) < 2 ^ 64 - 1"
    and b: "unat (SequencePair.Stream (Sequence (exampleMetadata 11 78))) < 2 ^ 64 - 1"
    and c: "SequencePair.Stream (Sequence (exampleMetadata 10 77))
              < SequencePair.Stream (Sequence (exampleMetadata 11 78))"
    and d: "unat (SequencePair.Stream (Sequence (exampleMetadata 10 77))) = 10"
    by (simp_all add: exampleMetadata_def)
  note t = messagePosition_optSeq
    [of "exampleIterator AckExplicitPolicy [] []" "exampleMetadata 10 77"]
  from t a have "unat (OptSeq (messagePosition (exampleIterator AckExplicitPolicy [] [])
                    (exampleMetadata 10 77)))
                 = unat (SequencePair.Stream (Sequence (exampleMetadata 10 77))) + 1"
    by blast
  with d have e: "unat (OptSeq (messagePosition (exampleIterator AckExplicitPolicy [] [])
                    (exampleMetadata 10 77))) = 11"
    by simp
  from t b c have f:
    "OptSeq (messagePosition (exampleIterator AckExplicitPolicy [] []) (exampleMetadata 10 77))
       < OptSeq (messagePosition (exampleIterator AckExplicitPolicy [] []) (exampleMetadata 11 78))"
    by blast
  show ?thesis
    using a b c e f by simp
qed

text \<open>
  Claim C4 as stated fails at the last stream sequence, \<open>2\<^sup>6\<^sup>4 - 1\<close>: the addition wraps,
  \<open>OptSeq\<close> is 0 and not \<open>s + 1\<close>, it is not above the value derived from the smaller
  sequence 10, and the record that \<open>Next\<close> returns carries the sequence 0.
\<close>

theorem optSeq_wraps_counterexample:
  "SequencePair.Stream (Sequence (exampleMetadata 10 77))
     < SequencePair.Stream (Sequence (exampleMetadata 18446744073709551615 78)) \<and>
   unat (SequencePair.Stream (Sequence (exampleMetadata 18446744073709551615 78)))
     = 18446744073709551615 \<and>
   OptSeq (messagePosition (exampleIterator AckExplicitPolicy [] [])
             (exampleMetadata 18446744073709551615 78)) = 0 \<and>
   unat (OptSeq (messagePosition (exampleIterator AckExplicitPolicy [] [])
                   (exampleMetadata 18446744073709551615 78)))
     \<noteq> unat (SequencePair.Stream (Sequence (exampleMetadata 18446744073709551615 78))) + 1 \<and>
   OptSeq (messagePosition (exampleIterator AckExplicitPolicy [] []) (exampleMetadata 10 77)) = 11 \<and>
   \<not> OptSeq (messagePosition (exampleIterator AckExplicitPolicy [] []) (exampleMetadata 10 77))
       < OptSeq (messagePosition (exampleIterator AckExplicitPolicy [] [])
                   (exampleMetadata 18446744073709551615 78)) \<and>
   Next exampleMarshal 5 CaseMessage None
      (exampleIterator AckExplicitPolicy [exampleMsg 18446744073709551615 78] [])
     = Some (Inr \<lparr>Position = ''conduit/orders/orders.new/78/0'', CreatedAt = 78,
                  Payload = ''payload''\<rparr>,
             exampleIterator AckExplicitPolicy [] [exampleMsg 18446744073709551615 78])"
  by (simp add: messagePosition_def exampleMetadata_def exampleIterator_def exampleInfo_def
      exampleMsg_def Next_def messageToRecord_def getMessagePosition_def exampleMarshal_def
      showInt_def showNat.simps IsZero_def)

section \<open>Messages taken from the channel\<close>

lemma messageToRecord_Inl:
  assumes "messageToRecord mar now i m = Inl err"
  shows "(\<exists>e. Metadata m = Inl e) \<or>
         (\<exists>md e. Metadata m = Inr md \<and> mar (messagePosition i md) = Inl e)"
  using assms
  by (auto simp: messageToRecord_def getMessagePosition_def split: sum.splits)

text \<open>
  Claim C5, amended. With a message \<open>m\<close> at the head of the channel \<open>Next\<close> returns, and
  one of three things has happened. The done case was taken: the context error is
  returned and the iterator, \<open>m\<close> in its channel, is unchanged. Or \<open>m\<close> was received and
  converted: its record is returned, the channel has lost exactly \<open>m\<close>, and \<open>m\<close> has been
  appended to the unacknowledged messages when the ack policy is not "none". Or \<open>m\<close> was
  received and its conversion failed, which happens only when its metadata cannot be
  read or its position cannot be encoded: the channel has lost \<open>m\<close>, the wrapped
  conversion error is returned, and \<open>m\<close> is neither returned nor queued. So a message
  that can be converted is never dropped.
\<close>

theorem Next_keeps_convertible:
  assumes "messages i = m # ms"
  shows "\<exists>res i'. Next mar now pick ctx i = Some (res, i') \<and>
           ((\<exists>e. ctx = Some e \<and> res = Inl (ContextErr e) \<and> i' = i) \<or>
            (\<exists>r. messageToRecord mar now i m = Inr r \<and> res = Inr r \<and> Payload r = Data m \<and>
                 messages i' = ms \<and>
                 unackMessages i' =
                   (if ConsumerConfig.AckPolicy (Config (consumerInfo i)) \<noteq> AckNonePolicy
                    then unackMessages i @ [m] else unackMessages i)) \<or>
            (\<exists>err. messageToRecord mar now i m = Inl err \<and>
                   ((\<exists>e. Metadata m = Inl e) \<or>
                    (\<exists>md e. Metadata m = Inr md \<and> mar (messagePosition i md) = Inl e)) \<and>
                   res = Inl (Errorf ''convert message to record'' err) \<and>
                   messages i' = ms \<and> unackMessages i' = unackMessages i))"
proof (cases "ctx = None \<or> pick = CaseMessage")
  case True
  note rcv = Next_receive [OF assms True, of mar now]
  show ?thesis
  proof (cases "messageToRecord mar now i m")
    case (Inl err)
    with rcv messageToRecord_Inl [OF Inl] show ?thesis by auto
  next
    case (Inr r)
    with rcv messageToRecord_Inr [OF Inr] show ?thesis by auto
  qed
next
  case False
  then obtain e where "ctx = Some e" and "pick = CaseDone"
    by (cases ctx; cases pick) auto
  then show ?thesis
    using assms by (simp add: Next_def)
qed

text \<open>Two messages in the channel: the first is returned and queued, the second stays.\<close>

theorem Next_keeps_convertible_witness:
  "messages (exampleIterator AckExplicitPolicy [exampleMsg 10 77, exampleMsg 11 78] [])
     = exampleMsg 10 77 # [exampleMsg 11 78] \<and>
   Next exampleMarshal 5 CaseMessage None
      (exampleIterator AckExplicitPolicy [exampleMsg 10 77, exampleMsg 11 78] [])
     = Some (Inr \<lparr>Position = ''conduit/orders/orders.new/77/11'', CreatedAt = 77,
                  Payload = ''payload''\<rparr>,
             exampleIterator AckExplicitPolicy [exampleMsg 11 78] [exampleMsg 10 77])"
proof -
  let ?i = "exampleIterator AckExplicitPolicy [exampleMsg 10 77, exampleMsg 11 78] []"
  have c: "messages ?i = exampleMsg 10 77 # [exampleMsg 11 78]"
    by (simp add: exampleIterator_def)
  have r: "messageToRecord exampleMarshal 5 ?i (exampleMsg 10 77)
             = Inr \<lparr>Position = ''conduit/orders/orders.new/77/11'', CreatedAt = 77,
                    Payload = ''payload''\<rparr>"
    unfolding messageToRecord_def example_position
    by (simp add: exampleMsg_def exampleMetadata_def IsZero_def)
  have pol: "ConsumerConfig.AckPolicy (Config (consumerInfo ?i)) \<noteq> AckNonePolicy"
    by (simp add: exampleIterator_def exampleInfo_def)
  from Next_keeps_convertible [OF c, of exampleMarshal 5 CaseMessage None]
  obtain res i' where n: "Next exampleMarshal 5 CaseMessage None ?i = Some (res, i')"
    and res: "res = Inr \<lparr>Position = ''conduit/orders/orders.new/77/11'', CreatedAt = 77,
                    Payload = ''payload''\<rparr>"
    and ch: "messages i' = [exampleMsg 11 78]"
    and un: "unackMessages i' = unackMessages ?i @ [exampleMsg 10 77]"
    using r pol by auto
  from Next_frame [OF n] have "consumerInfo i' = consumerInfo ?i" "subscription i' = subscription ?i"
    by simp_all
  with ch un have "i' = exampleIterator AckExplicitPolicy [exampleMsg 11 78] [exampleMsg 10 77]"
    by (simp add: exampleIterator_def)
  with n res c show ?thesis by simp
qed

text \<open>
  Claim C5 as stated fails on a message whose metadata cannot be read: \<open>Next\<close> takes it
  from the channel and returns an error; afterwards it is in neither the channel nor the
  unacknowledged messages, and no record was returned.
\<close>

theorem Next_drops_unreadable_counterexample:
  "messages (exampleIterator AckExplicitPolicy [unreadableMsg] []) = [unreadableMsg] \<and>
   Next exampleMarshal 5 CaseMessage None (exampleIterator AckExplicitPolicy [unreadableMsg] [])
     = Some (Inl (Errorf ''convert message to record''
                   (Errorf ''get position''
                     (Errorf ''get message metadata''
                       (LibError ''nats: not a jetstream message'')))),
             exampleIterator AckExplicitPolicy [] []) \<and>
   messages (exampleIterator AckExplicitPolicy [] []) = [] \<and>
   unackMessages (exampleIterator AckExplicitPolicy [] []) = []"
  by (simp add: Next_def messageToRecord_def getMessagePosition_def exampleIterator_def
      unreadableMsg_def)

section \<open>Acknowledging in order\<close>

text \<open>
  Every message in the queue went through \<open>messageToRecord\<close> in \<open>Next\<close>, so its position
  can be derived: on an iterator that \<open>NewIterator\<close> returned, after any events, \<open>canAck\<close>
  never fails with "get position".
\<close>

lemma step_positions:
  assumes "\<forall>m \<in> set (unackMessages i). \<exists>p. getMessagePosition mar i m = Inr p"
  shows "\<forall>m \<in> set (unackMessages (step mar i ev)).
           \<exists>p. getMessagePosition mar (step mar i ev) m = Inr p"
proof -
  have fr: "getMessagePosition mar (step mar i ev) m = getMessagePosition mar i m" for m
    by (rule getMessagePosition_frame) (simp_all add: step_frame)
  have "\<forall>m \<in> set (unackMessages (step mar i ev)). \<exists>p. getMessagePosition mar i m = Inr p"
  proof (cases ev)
    case (Deliver m)
    with assms show ?thesis by simp
  next
    case (CallNext now pick ctx)
    show ?thesis
    proof (cases "Next mar now pick ctx i")
      case None
      with CallNext assms show ?thesis by simp
    next
      case (Some a)
      obtain res i' where a: "a = (res, i')" by (cases a)
      show ?thesis
      proof (cases res)
        case (Inl e)
        with Some a have "unackMessages i' = unackMessages i"
          by (auto simp: Next_def split: list.splits option.splits sum.splits if_splits)
        with CallNext Some a assms show ?thesis by simp
      next
        case (Inr r)
        with Some a have n: "Next mar now pick ctx i = Some (Inr r, i')" by simp
        from Next_record [OF n] obtain m ms where
          m: "messageToRecord mar now i m = Inr r" and
          i': "i' = (if ConsumerConfig.AckPolicy (Config (consumerInfo i)) \<noteq> AckNonePolicy
                     then i\<lparr>messages := ms, unackMessages := unackMessages i @ [m]\<rparr>
                     else i\<lparr>messages := ms\<rparr>)"
          by blast
        from i' have sub: "set (unackMessages i') \<subseteq> insert m (set (unackMessages i))"
          by (auto split: if_splits)
        from m have "\<exists>p. getMessagePosition mar i m = Inr p"
          by (auto simp: messageToRecord_def split: sum.splits)
        with sub assms CallNext Some a show ?thesis by auto
      qed
    qed
  next
    case (CallAck msgAck pos)
    have "set (unackMessages (fst (snd (Ack mar msgAck i pos)))) \<subseteq> set (unackMessages i)"
      by (auto simp: Ack_def split: option.splits list.splits)
    with CallAck assms show ?thesis by auto
  qed
  with fr show ?thesis by simp
qed

lemma run_positions:
  assumes "\<forall>m \<in> set (unackMessages i). \<exists>p. getMessagePosition mar i m = Inr p"
  shows "\<forall>m \<in> set (unackMessages (run mar i evs)).
           \<exists>p. getMessagePosition mar (run mar i evs) m = Inr p"
  using assms unfolding run_def
proof (induction evs arbitrary: i)
  case Nil
  then show ?case by simp
next
  case (Cons ev evs)
  from Cons.IH [OF step_positions [OF Cons.prems]] show ?case by simp
qed

lemma NewIterator_run_positions:
  assumes "NewIterator parsePosition params = Inr i0"
  shows "\<forall>m \<in> set (unackMessages (run mar i0 evs)).
           \<exists>p. getMessagePosition mar (run mar i0 evs) m = Inr p"
  using NewIterator_empty [OF assms] by (intro run_positions) simp

lemma getMessagePosition_unack:
  "getMessagePosition mar (i\<lparr>unackMessages := u\<rparr>) m = getMessagePosition mar i m"
  by (rule getMessagePosition_frame) simp_all

lemma example_position_next:
  "getMessagePosition exampleMarshal (exampleIterator pol chan unack) (exampleMsg 11 78)
     = Inr ''conduit/orders/orders.new/78/12''"
  by (simp add: getMessagePosition_def messagePosition_def exampleMarshal_def
      exampleIterator_def exampleInfo_def exampleMsg_def exampleMetadata_def showInt_def
      showNat.simps)

text \<open>
  Claim C1, amended. With an ack policy other than "none": if the queue is empty, \<open>Ack\<close>
  fails with \<open>NoUnacknowledged\<close>; if the queue is not empty and the position derived from
  its head differs from the requested position, \<open>Ack\<close> fails with \<open>OutOfOrderAck\<close>; in
  both cases the iterator is unchanged and the broker is not called. Otherwise, the
  position of the head being the requested one, \<open>Ack\<close> calls the acknowledge of the
  broker on the head, and on no other message: when the broker accepts, \<open>Ack\<close> succeeds
  and the queue loses exactly its head; when the broker refuses, \<open>Ack\<close> returns that
  error, wrapped, and the iterator is unchanged. Every \<open>Ack\<close> that returns an error leaves
  the iterator as it was, so a rejected ack is never reordered or coalesced. A duplicate
  ack, the position just acknowledged presented again, is rejected when the queue has
  become empty (\<open>NoUnacknowledged\<close>) and when the position of the new head differs from it
  (\<open>OutOfOrderAck\<close>); when the new head has the same position, byte for byte, it is the
  ack of that head, accepted like any other.
\<close>

theorem Ack_in_order:
  assumes "ConsumerConfig.AckPolicy (Config (consumerInfo i)) \<noteq> AckNonePolicy"
  shows
   "(unackMessages i = [] \<longrightarrow>
       Ack mar msgAck i pos =
         (Some (Errorf ''message cannot be acknowledged'' (NoUnacknowledged pos)), i, [])) \<and>
    (\<forall>m ms p. unackMessages i = m # ms \<and> getMessagePosition mar i m = Inr p \<and> p \<noteq> pos \<longrightarrow>
       Ack mar msgAck i pos =
         (Some (Errorf ''message cannot be acknowledged'' (OutOfOrderAck pos p)), i, [])) \<and>
    (\<forall>m ms. unackMessages i = m # ms \<and> getMessagePosition mar i m = Inr pos \<and>
            msgAck m = None \<longrightarrow>
       Ack mar msgAck i pos = (None, i\<lparr>unackMessages := ms\<rparr>, [m])) \<and>
    (\<forall>m ms e. unackMessages i = m # ms \<and> getMessagePosition mar i m = Inr pos \<and>
            msgAck m = Some e \<longrightarrow>
       Ack mar msgAck i pos = (Some (Errorf ''ack message'' e), i, [m])) \<and>
    (\<forall>m ms e. unackMessages i = m # ms \<and> getMessagePosition mar i m = Inl e \<longrightarrow>
       Ack mar msgAck i pos =
         (Some (Errorf ''message cannot be acknowledged'' (Errorf ''get position'' e)), i, [])) \<and>
    (fst (Ack mar msgAck i pos) \<noteq> None \<longrightarrow> fst (snd (Ack mar msgAck i pos)) = i) \<and>
    (\<forall>m msgAck'. unackMessages i = [m] \<and> getMessagePosition mar i m = Inr pos \<and>
            msgAck m = None \<longrightarrow>
       Ack mar msgAck' (i\<lparr>unackMessages := []\<rparr>) pos =
         (Some (Errorf ''message cannot be acknowledged'' (NoUnacknowledged pos)),
          i\<lparr>unackMessages := []\<rparr>, [])) \<and>
    (\<forall>m m2 ms2 p msgAck'.
       unackMessages i = m # m2 # ms2 \<and> getMessagePosition mar i m = Inr pos \<and>
       msgAck m = None \<and> getMessagePosition mar i m2 = Inr p \<and> p \<noteq> pos \<longrightarrow>
       Ack mar msgAck' (i\<lparr>unackMessages := m2 # ms2\<rparr>) pos =
         (Some (Errorf ''message cannot be acknowledged'' (OutOfOrderAck pos p)),
          i\<lparr>unackMessages := m2 # ms2\<rparr>, [])) \<and>
    (\<forall>m m2 ms2 msgAck'.
       unackMessages i = m # m2 # ms2 \<and> getMessagePosition mar i m = Inr pos \<and>
       msgAck m = None \<and> getMessagePosition mar i m2 = Inr pos \<and> msgAck' m2 = None \<longrightarrow>
       Ack mar msgAck' (i\<lparr>unackMessages := m2 # ms2\<rparr>) pos =
         (None, i\<lparr>unackMessages := ms2\<rparr>, [m2]))"
proof -
  have first: "(unackMessages i = [] \<longrightarrow>
       Ack mar msgAck i pos =
         (Some (Errorf ''message cannot be acknowledged'' (NoUnacknowledged pos)), i, [])) \<and>
    (\<forall>m ms p. unackMessages i = m # ms \<and> getMessagePosition mar i m = Inr p \<and> p \<noteq> pos \<longrightarrow>
       Ack mar msgAck i pos =
         (Some (Errorf ''message cannot be acknowledged'' (OutOfOrderAck pos p)), i, [])) \<and>
    (\<forall>m ms. unackMessages i = m # ms \<and> getMessagePosition mar i m = Inr pos \<and>
            msgAck m = None \<longrightarrow>
       Ack mar msgAck i pos = (None, i\<lparr>unackMessages := ms\<rparr>, [m])) \<and>
    (\<forall>m ms e. unackMessages i = m # ms \<and> getMessagePosition mar i m = Inr pos \<and>
            msgAck m = Some e \<longrightarrow>
       Ack mar msgAck i pos = (Some (Errorf ''ack message'' e), i, [m])) \<and>
    (\<forall>m ms e. unackMessages i = m # ms \<and> getMessagePosition mar i m = Inl e \<longrightarrow>
       Ack mar msgAck i pos =
         (Some (Errorf ''message cannot be acknowledged'' (Errorf ''get position'' e)), i, [])) \<and>
    (fst (Ack mar msgAck i pos) \<noteq> None \<longrightarrow> fst (snd (Ack mar msgAck i pos)) = i)"
    using assms
    by (auto simp: Ack_def canAck_def split: option.splits sum.splits list.splits)
  have again: "(\<forall>m msgAck'. unackMessages i = [m] \<and> getMessagePosition mar i m = Inr pos \<and>
            msgAck m = None \<longrightarrow>
       Ack mar msgAck' (i\<lparr>unackMessages := []\<rparr>) pos =
         (Some (Errorf ''message cannot be acknowledged'' (NoUnacknowledged pos)),
          i\<lparr>unackMessages := []\<rparr>, [])) \<and>
    (\<forall>m m2 ms2 p msgAck'.
       unackMessages i = m # m2 # ms2 \<and> getMessagePosition mar i m = Inr pos \<and>
       msgAck m = None \<and> getMessagePosition mar i m2 = Inr p \<and> p \<noteq> pos \<longrightarrow>
       Ack mar msgAck' (i\<lparr>unackMessages := m2 # ms2\<rparr>) pos =
         (Some (Errorf ''message cannot be acknowledged'' (OutOfOrderAck pos p)),
          i\<lparr>unackMessages := m2 # ms2\<rparr>, [])) \<and>
    (\<forall>m m2 ms2 msgAck'.
       unackMessages i = m # m2 # ms2 \<and> getMessagePosition mar i m = Inr pos \<and>
       msgAck m = None \<and> getMessagePosition mar i m2 = Inr pos \<and> msgAck' m2 = None \<longrightarrow>
       Ack mar msgAck' (i\<lparr>unackMessages := m2 # ms2\<rparr>) pos =
         (None, i\<lparr>unackMessages := ms2\<rparr>, [m2]))"
    using assms
    by (simp add: Ack_def canAck_def getMessagePosition_unack)
  from first again show ?thesis
    by (elim conjE, intro conjI) assumption+
qed

text \<open>An empty queue; the position of the second message asked first; the position of
  the head; and that position once more, now out of order.\<close>

theorem Ack_in_order_witness:
  "ConsumerConfig.AckPolicy (Config (consumerInfo (exampleIterator AckExplicitPolicy [] [])))
     \<noteq> AckNonePolicy \<and>
   Ack exampleMarshal brokerAcks (exampleIterator AckExplicitPolicy [] [])
       ''conduit/orders/orders.new/77/11''
     = (Some (Errorf ''message cannot be acknowledged''
               (NoUnacknowledged ''conduit/orders/orders.new/77/11'')),
        exampleIterator AckExplicitPolicy [] [], []) \<and>
   Ack exampleMarshal brokerAcks
       (exampleIterator AckExplicitPolicy [] [exampleMsg 10 77, exampleMsg 11 78])
       ''conduit/orders/orders.new/78/12''
     = (Some (Errorf ''message cannot be acknowledged''
               (OutOfOrderAck ''conduit/orders/orders.new/78/12''
                  ''conduit/orders/orders.new/77/11'')),
        exampleIterator AckExplicitPolicy [] [exampleMsg 10 77, exampleMsg 11 78], []) \<and>
   Ack exampleMarshal brokerAcks
       (exampleIterator AckExplicitPolicy [] [exampleMsg 10 77, exampleMsg 11 78])
       ''conduit/orders/orders.new/77/11''
     = (None, exampleIterator AckExplicitPolicy [] [exampleMsg 11 78], [exampleMsg 10 77]) \<and>
   Ack exampleMarshal brokerAcks
       (exampleIterator AckExplicitPolicy [] [exampleMsg 11 78])
       ''conduit/orders/orders.new/77/11''
     = (Some (Errorf ''message cannot be acknowledged''
               (OutOfOrderAck ''conduit/orders/orders.new/77/11''
                  ''conduit/orders/orders.new/78/12'')),
        exampleIterator AckExplicitPolicy [] [exampleMsg 11 78], [])"
proof -
  let ?e = "exampleIterator AckExplicitPolicy [] []"
  let ?i = "exampleIterator AckExplicitPolicy [] [exampleMsg 10 77, exampleMsg 11 78]"
  have pe: "ConsumerConfig.AckPolicy (Config (consumerInfo ?e)) \<noteq> AckNonePolicy"
    and pi: "ConsumerConfig.AckPolicy (Config (consumerInfo ?i)) \<noteq> AckNonePolicy"
    by (simp_all add: exampleIterator_def exampleInfo_def)
  have qe: "unackMessages ?e = []"
    and qi: "unackMessages ?i = exampleMsg 10 77 # [exampleMsg 11 78]"
    and qi2: "unackMessages ?i = exampleMsg 10 77 # exampleMsg 11 78 # []"
    and pop: "?i\<lparr>unackMessages := [exampleMsg 11 78]\<rparr>
                = exampleIterator AckExplicitPolicy [] [exampleMsg 11 78]"
    by (simp_all add: exampleIterator_def)
  have ok: "brokerAcks (exampleMsg 10 77) = None"
    by (simp add: brokerAcks_def)
  have ne: "''conduit/orders/orders.new/78/12'' \<noteq> ''conduit/orders/orders.new/77/11''"
    by simp
  have a1: "Ack exampleMarshal brokerAcks ?e ''conduit/orders/orders.new/77/11''
     = (Some (Errorf ''message cannot be acknowledged''
               (NoUnacknowledged ''conduit/orders/orders.new/77/11'')), ?e, [])"
    by (rule Ack_in_order [OF pe, THEN conjunct1, rule_format]) (rule qe)
  have a2: "Ack exampleMarshal brokerAcks ?i ''conduit/orders/orders.new/78/12''
     = (Some (Errorf ''message cannot be acknowledged''
               (OutOfOrderAck ''conduit/orders/orders.new/78/12''
                  ''conduit/orders/orders.new/77/11'')), ?i, [])"
    by (rule Ack_in_order [OF pi, THEN conjunct2, THEN conjunct1, rule_format])
       (intro conjI, rule qi, rule example_position, simp)
  have a3: "Ack exampleMarshal brokerAcks ?i ''conduit/orders/orders.new/77/11''
     = (None, ?i\<lparr>unackMessages := [exampleMsg 11 78]\<rparr>, [exampleMsg 10 77])"
    by (rule Ack_in_order [OF pi, THEN conjunct2, THEN conjunct2, THEN conjunct1, rule_format])
       (intro conjI, rule qi, rule example_position, rule ok)
  have a4: "Ack exampleMarshal brokerAcks (?i\<lparr>unackMessages := exampleMsg 11 78 # []\<rparr>)
       ''conduit/orders/orders.new/77/11''
     = (Some (Errorf ''message cannot be acknowledged''
               (OutOfOrderAck ''conduit/orders/orders.new/77/11''
                  ''conduit/orders/orders.new/78/12'')),
        ?i\<lparr>unackMessages := exampleMsg 11 78 # []\<rparr>, [])"
    by (rule Ack_in_order [OF pi, where msgAck = brokerAcks, THEN conjunct2, THEN conjunct2,
          THEN conjunct2, THEN conjunct2, THEN conjunct2, THEN conjunct2, THEN conjunct2,
          THEN conjunct1, rule_format])
       (intro conjI, rule qi2, rule example_position, rule ok, rule example_position_next,
        rule ne)
  show ?thesis
    using pe a1 a2 a3 a4 pop by simp
qed

text \<open>
  Claim C1 as stated fails in two ways. When the broker refuses the acknowledge: the
  queue is not empty and the position of its head is the requested one, yet \<open>Ack\<close> returns
  an error and the head is still in the queue. And on a duplicate ack: the broker
  delivers the message with stream sequence 10 a second time, both deliveries are read,
  and their positions are the same bytes; the position is acknowledged, and the same
  position presented again is accepted, as the ack of the second delivery.
\<close>

theorem Ack_refused_or_repeated_counterexample:
  "ConsumerConfig.AckPolicy
     (Config (consumerInfo (exampleIterator AckExplicitPolicy [] [exampleMsg 10 77])))
     \<noteq> AckNonePolicy \<and>
   unackMessages (exampleIterator AckExplicitPolicy [] [exampleMsg 10 77]) = [exampleMsg 10 77] \<and>
   getMessagePosition exampleMarshal (exampleIterator AckExplicitPolicy [] [exampleMsg 10 77])
       (exampleMsg 10 77) = Inr ''conduit/orders/orders.new/77/11'' \<and>
   Ack exampleMarshal brokerDown (exampleIterator AckExplicitPolicy [] [exampleMsg 10 77])
       ''conduit/orders/orders.new/77/11''
     = (Some (Errorf ''ack message'' (LibError ''nats: timeout'')),
        exampleIterator AckExplicitPolicy [] [exampleMsg 10 77], [exampleMsg 10 77]) \<and>
   run exampleMarshal (exampleIterator AckExplicitPolicy [] [])
     [Deliver (exampleMsg 10 77), CallNext 5 CaseMessage None,
      Deliver (redeliveredMsg 10 77), CallNext 5 CaseMessage None]
     = exampleIterator AckExplicitPolicy [] [exampleMsg 10 77, redeliveredMsg 10 77] \<and>
   Ack exampleMarshal brokerAcks
       (exampleIterator AckExplicitPolicy [] [exampleMsg 10 77, redeliveredMsg 10 77])
       ''conduit/orders/orders.new/77/11''
     = (None, exampleIterator AckExplicitPolicy [] [redeliveredMsg 10 77],
        [exampleMsg 10 77]) \<and>
   Ack exampleMarshal brokerAcks
       (exampleIterator AckExplicitPolicy [] [redeliveredMsg 10 77])
       ''conduit/orders/orders.new/77/11''
     = (None, exampleIterator AckExplicitPolicy [] [], [redeliveredMsg 10 77])"
  by code_simp

section \<open>A run from end to end\<close>

text \<open>
  The broker delivers three messages with stream sequences 10, 11 and 12 to an iterator
  with the policy "explicit"; three \<open>Next\<close> calls read them, the first record carrying a
  position with \<open>OptSeq\<close> 11. Then that position is acknowledged; it is acknowledged again,
  which is out of order, the head being now the message whose position has \<open>OptSeq\<close> 12;
  and the position with \<open>OptSeq\<close> 12 is acknowledged.
\<close>

lemma end_to_end_reads:
  "Next exampleMarshal 5 CaseMessage None
     (exampleIterator AckExplicitPolicy
        [exampleMsg 10 77, exampleMsg 11 78, exampleMsg 12 79] [])
   = Some (Inr \<lparr>Position = ''conduit/orders/orders.new/77/11'', CreatedAt = 77,
                Payload = ''payload''\<rparr>,
           exampleIterator AckExplicitPolicy [exampleMsg 11 78, exampleMsg 12 79]
             [exampleMsg 10 77]) \<and>
   run exampleMarshal (exampleIterator AckExplicitPolicy [] [])
     [Deliver (exampleMsg 10 77), Deliver (exampleMsg 11 78), Deliver (exampleMsg 12 79),
      CallNext 5 CaseMessage None, CallNext 5 CaseMessage None, CallNext 5 CaseMessage None]
   = exampleIterator AckExplicitPolicy []
       [exampleMsg 10 77, exampleMsg 11 78, exampleMsg 12 79]"
  by code_simp

lemma end_to_end_acks:
  "Ack exampleMarshal brokerAcks
     (exampleIterator AckExplicitPolicy []
        [exampleMsg 10 77, exampleMsg 11 78, exampleMsg 12 79])
     ''conduit/orders/orders.new/77/11''
   = (None, exampleIterator AckExplicitPolicy [] [exampleMsg 11 78, exampleMsg 12 79],
      [exampleMsg 10 77]) \<and>
   Ack exampleMarshal brokerAcks
     (exampleIterator AckExplicitPolicy [] [exampleMsg 11 78, exampleMsg 12 79])
     ''conduit/orders/orders.new/77/11''
   = (Some (Errorf ''message cannot be acknowledged''
             (OutOfOrderAck ''conduit/orders/orders.new/77/11''
                ''conduit/orders/orders.new/78/12'')),
      exampleIterator AckExplicitPolicy [] [exampleMsg 11 78, exampleMsg 12 79], []) \<and>
   Ack exampleMarshal brokerAcks
     (exampleIterator AckExplicitPolicy [] [exampleMsg 11 78, exampleMsg 12 79])
     ''conduit/orders/orders.new/78/12''
   = (None, exampleIterator AckExplicitPolicy [] [exampleMsg 12 79], [exampleMsg 11 78])"
  by code_simp

end
